theory Spec2Isabelle
  imports Main "HOL-Library.Char_ord" "HOL-Library.List_Lexorder"
begin

section \<open>Go strings\<close>

text \<open>
  A Go string is a sequence of bytes, as \<^typ>\<open>string\<close> is. The case functions of
  package \<open>strings\<close> are given here on ASCII letters, as their ASCII loops compute
  them; a byte from 0x80 on is left as it is by \<open>ToLower\<close> and compared exactly by
  \<open>EqualFold\<close> (the case tables of Unicode are not part of this development).
\<close>

definition is_upper :: "char \<Rightarrow> bool" where
  "is_upper c = (CHR ''A'' \<le> c \<and> c \<le> CHR ''Z'')"

definition is_lower :: "char \<Rightarrow> bool" where
  "is_lower c = (CHR ''a'' \<le> c \<and> c \<le> CHR ''z'')"

definition is_digit :: "char \<Rightarrow> bool" where
  "is_digit c = (CHR ''0'' \<le> c \<and> c \<le> CHR ''9'')"

text \<open>\<open>c + 'a' - 'A'\<close> on a byte.\<close>

definition shift_lower :: "char \<Rightarrow> char" where
  "shift_lower c = char_of (of_char c + (32 :: nat))"

definition lower_byte :: "char \<Rightarrow> char" where
  "lower_byte c = (if is_upper c then shift_lower c else c)"

definition ToLower :: "string \<Rightarrow> string" where
  "ToLower s = map lower_byte s"

text \<open>
  \<open>strings.EqualFold\<close>: the two strings are walked together; two bytes agree when they
  are equal or when the smaller is an upper-case letter and the larger is the same
  letter in lower case; at the end both strings must be exhausted.
\<close>

fun EqualFold :: "string \<Rightarrow> string \<Rightarrow> bool" where
  "EqualFold [] [] = True"
| "EqualFold (sr # s) (tr # t) =
     (if tr = sr then EqualFold s t
      else (let lo = min sr tr; hi = max sr tr
            in if is_upper lo \<and> hi = shift_lower lo then EqualFold s t else False))"
| "EqualFold [] (tr # t) = False"
| "EqualFold (sr # s) [] = False"

text \<open>\<open>strings.TrimSuffix\<close>.\<close>

definition TrimSuffix :: "string \<Rightarrow> string \<Rightarrow> string" where
  "TrimSuffix s suffix =
     (if length suffix \<le> length s \<and> drop (length s - length suffix) s = suffix
      then take (length s - length suffix) s else s)"

text \<open>
  \<open>strings.SplitN(s, sep, 2)\<close> for a separator of one byte: the whole string when the
  separator does not occur, else the part before its first occurrence and the rest
  after it.
\<close>

definition SplitN2 :: "string \<Rightarrow> char \<Rightarrow> string list" where
  "SplitN2 s sep =
     (if sep \<in> set s
      then [takeWhile (\<lambda>c. c \<noteq> sep) s, tl (dropWhile (\<lambda>c. c \<noteq> sep) s)]
      else [s])"

text \<open>\<open>strconv.FormatBool\<close>.\<close>

definition FormatBool :: "bool \<Rightarrow> string" where
  "FormatBool b = (if b then ''true'' else ''false'')"

section \<open>Package \<open>net/url\<close>\<close>

record url =
  Scheme :: string
  Host :: string
  Path :: string
  RawQuery :: string

text \<open>
  \<open>url.Values\<close> is a map from a key to its list of values; \<open>Encode\<close> walks the keys in
  sorted order, so the map is kept as an association list with one entry for a key.
\<close>

type_synonym Values = "(string \<times> string list) list"

fun Values_get :: "Values \<Rightarrow> string \<Rightarrow> string list" where
  "Values_get [] key = []"
| "Values_get ((k, vs) # v) key = (if k = key then vs else Values_get v key)"

fun Values_Add :: "string \<Rightarrow> string \<Rightarrow> Values \<Rightarrow> Values" where
  "Values_Add key val [] = [(key, [val])]"
| "Values_Add key val ((k, vs) # v) =
     (if k = key then (k, vs @ [val]) # v else (k, vs) # Values_Add key val v)"

definition Values_Del :: "string \<Rightarrow> Values \<Rightarrow> Values" where
  "Values_Del key v = filter (\<lambda>kv. fst kv \<noteq> key) v"

text \<open>
  \<open>url.QueryEscape\<close>: letters, digits and \<open>- _ . ~\<close> stay, a space becomes \<open>+\<close>, every
  other byte becomes \<open>%\<close> and its two upper-case hexadecimal digits.
\<close>

definition shouldEscape :: "char \<Rightarrow> bool" where
  "shouldEscape c =
     (\<not> (is_lower c \<or> is_upper c \<or> is_digit c \<or> c \<in> set ''-_.~''))"

definition upperhex :: "nat \<Rightarrow> char" where
  "upperhex n = (if n < 16 then ''0123456789ABCDEF'' ! n else CHR ''?'')"

definition escape_byte :: "char \<Rightarrow> string" where
  "escape_byte c =
     (if shouldEscape c
      then (if c = CHR '' '' then ''+''
            else [CHR ''%'', upperhex (of_char c div 16), upperhex (of_char c mod 16)])
      else [c])"

definition QueryEscape :: "string \<Rightarrow> string" where
  "QueryEscape s = concat (map escape_byte s)"

fun join_amp :: "string list \<Rightarrow> string" where
  "join_amp [] = []"
| "join_amp [x] = x"
| "join_amp (x # y # ys) = x @ ''&'' @ join_amp (y # ys)"

definition Encode :: "Values \<Rightarrow> string" where
  "Encode v =
     join_amp (concat (map (\<lambda>k. map (\<lambda>x. QueryEscape k @ ''='' @ QueryEscape x) (Values_get v k))
                           (sort (map fst v))))"

section \<open>Errors and outcomes\<close>

text \<open>
  Every error the handlers make themselves is made by \<open>fmt.Errorf\<close> without \<open>%w\<close>: a
  value that carries its message and nothing else. The only other errors are those the
  transport helper returns, which classifies them as transport errors with their cause
  (see the helper below).
\<close>

datatype cause = NetworkFailure string | UnexpectedStatus nat

datatype error = Errorf string | TransportError cause

text \<open>The text of an error, as \<open>%+v\<close> formats it into the message of another.\<close>

fun error_text :: "error \<Rightarrow> string" where
  "error_text (Errorf msg) = msg"
| "error_text (TransportError (NetworkFailure msg)) = msg"
| "error_text (TransportError (UnexpectedStatus code)) = ''unexpected status code''"

text \<open>
  A handler returns \<open>nil\<close>, returns an error, or panics (a run-time panic is not a
  returned error).
\<close>

datatype outcome = Success | Failure error | Panicked string

section \<open>The declaration: \<open>schema.ResourceData\<close>\<close>

text \<open>
  The handlers read and write the declaration by field name. All fields of the two
  schemas are strings, except \<open>permissions\<close>, a list of strings. A string field
  that is not set reads as the empty string, and \<open>GetOk\<close> reports a field as set when
  its value is not the zero value of its type.
\<close>

record ResourceData =
  Id :: string
  attrs :: "string \<Rightarrow> string"
  list_attrs :: "string \<Rightarrow> string list"

text \<open>A value of type \<open>interface{}\<close>: a string, or a value of another dynamic type.\<close>

datatype interface = Str string | NonStr

definition Get :: "ResourceData \<Rightarrow> string \<Rightarrow> string" where
  "Get d key = attrs d key"

definition GetOk :: "ResourceData \<Rightarrow> string \<Rightarrow> string \<times> bool" where
  "GetOk d key = (attrs d key, attrs d key \<noteq> [])"

definition GetList :: "ResourceData \<Rightarrow> string \<Rightarrow> interface list" where
  "GetList d key = map Str (list_attrs d key)"

definition Set :: "string \<Rightarrow> string \<Rightarrow> ResourceData \<Rightarrow> ResourceData" where
  "Set key val d = d\<lparr>attrs := (attrs d)(key := val)\<rparr>"

fun the_strings :: "interface list \<Rightarrow> string list option" where
  "the_strings [] = Some []"
| "the_strings (Str s # xs) = map_option (\<lambda>ys. s # ys) (the_strings xs)"
| "the_strings (NonStr # xs) = None"

text \<open>
  \<open>d.Set\<close> of a list field: a list of strings is stored; anything else is refused with
  an error, which the handlers do not look at, and the field keeps its value.
\<close>

definition SetList :: "string \<Rightarrow> interface list \<Rightarrow> ResourceData \<Rightarrow> ResourceData" where
  "SetList key val d =
     (case the_strings val of
        Some xs \<Rightarrow> d\<lparr>list_attrs := (list_attrs d)(key := xs)\<rparr>
      | None \<Rightarrow> d)"

definition SetId :: "string \<Rightarrow> ResourceData \<Rightarrow> ResourceData" where
  "SetId v d = d\<lparr>Id := v\<rparr>"

section \<open>The codec of the permissions resource\<close>

text \<open>
  \<open>expandPermissions\<close>: the loop appends \<open>permission.(string)\<close> for every element; the
  type assertion panics on an element that is not a string (\<open>None\<close>).
\<close>

fun expand_loop :: "interface list \<Rightarrow> string list \<Rightarrow> string list option" where
  "expand_loop [] expandedPermissions = Some expandedPermissions"
| "expand_loop (Str permission # flatPermissions) expandedPermissions =
     expand_loop flatPermissions (expandedPermissions @ [permission])"
| "expand_loop (NonStr # flatPermissions) expandedPermissions = None"

definition expandPermissions :: "ResourceData \<Rightarrow> string list option" where
  "expandPermissions d = expand_loop (GetList d ''permissions'') []"

text \<open>\<open>flattenPermissions\<close>: the argument is a pointer to a slice, \<open>None\<close> when nil.\<close>

fun flatten_loop :: "string list \<Rightarrow> interface list \<Rightarrow> interface list" where
  "flatten_loop [] flatPermissions = flatPermissions"
| "flatten_loop (permission # input) flatPermissions =
     flatten_loop input (flatPermissions @ [Str permission])"

definition flattenPermissions :: "string list option \<Rightarrow> interface list" where
  "flattenPermissions input =
     (case input of None \<Rightarrow> [] | Some xs \<Rightarrow> flatten_loop xs [])"

text \<open>
  Modelled from the spec: the permissions of a template, structured objects carrying a
  key and the boolean flag \<open>withProjectCreator\<close>. The declaration of the struct
  \<open>PermissionTemplatePermission\<close> is not among the sources; the fields are those
  \<open>flattenProjectCreatorPermissions\<close> reads.
\<close>

record PermissionTemplatePermission =
  Key :: string
  WithProjectCreator :: bool

fun flatten_creator_loop ::
  "PermissionTemplatePermission list \<Rightarrow> interface list \<Rightarrow> interface list" where
  "flatten_creator_loop [] flatPermissions = flatPermissions"
| "flatten_creator_loop (permission # input) flatPermissions =
     (if WithProjectCreator permission
      then flatten_creator_loop input (flatPermissions @ [Str (Key permission)])
      else flatten_creator_loop input flatPermissions)"

definition flattenProjectCreatorPermissions ::
  "PermissionTemplatePermission list option \<Rightarrow> interface list" where
  "flattenProjectCreatorPermissions input =
     (case input of None \<Rightarrow> [] | Some xs \<Rightarrow> flatten_creator_loop xs [])"

section \<open>The server and the transport helper\<close>

text \<open>
  Modelled from the spec: the records the read endpoints answer with, a user with its
  permission set, a template with its permission list, and the flat binding object.
  \<open>GroupPermission\<close> is declared in the source; the declarations of \<open>GetUser\<close>,
  \<open>GetPermissionTemplates\<close> and \<open>GetBinding\<close> are not among the sources, and the
  fields kept are those the handlers read.
\<close>

record User =
  Login :: string
  UserPermissions :: "string list"

record GroupPermission =
  GroupId :: string
  Name :: string
  Description :: string
  GroupPermissions :: "string list"

record PermissionTemplate =
  TemplateID :: string
  TemplateName :: string
  TemplatePermissions :: "PermissionTemplatePermission list"

record GetBinding =
  BindingKey :: string
  Repository :: string
  Alm :: string
  Monorepo :: bool

text \<open>
  A response body is kept as what \<open>json.Decoder.Decode\<close> makes of it for each of the
  four structs the handlers decode into: the list of the struct, or the text of the
  decoder's error.
\<close>

record body =
  decode_GetUser :: "string + User list"
  decode_GetGroupPermissions :: "string + GroupPermission list"
  decode_GetPermissionTemplates :: "string + PermissionTemplate list"
  decode_GetBinding :: "string + GetBinding"

text \<open>
  One call of the transport helper: method, URL, expected status and the name the
  caller passes for messages.
\<close>

record call =
  httpMethod :: string
  target :: url
  expected :: nat
  caller :: string

datatype reply = NoResponse string | Response nat body

text \<open>
  The server behind the HTTP client: its answer to a call may depend on the calls
  made before.
\<close>

type_synonym client = "call list \<Rightarrow> call \<Rightarrow> reply"

text \<open>
  Modelled from the spec: the handle of the connection to the server, with the base URL,
  the transport and the edition and version of the server, read and never changed by
  the handlers. The declaration of \<open>ProviderConfiguration\<close> is not among the sources;
  the fields are those the handlers read. Each handler works on its own copy of the URL.
\<close>

record ProviderConfiguration =
  httpClient :: client
  sonarQubeURL :: url
  sonarQubeVersion :: string
  sonarQubeEdition :: string

text \<open>
  Modelled from the spec: \<open>httpRequestHelper\<close>, the transport invoker, whose source is
  not among the files. It issues one HTTP request, validates the status code of the
  response against the expected value, and returns the body or a classified error (a
  network failure or an unexpected status code). The list of calls made so far is the
  state of the world; the helper appends its call.
\<close>

definition check_reply :: "reply \<Rightarrow> nat \<Rightarrow> error + body" where
  "check_reply r expectedResponseCode =
     (case r of
        NoResponse msg \<Rightarrow> Inl (TransportError (NetworkFailure msg))
      | Response code b \<Rightarrow>
          if code = expectedResponseCode then Inr b
          else Inl (TransportError (UnexpectedStatus code)))"

definition httpRequestHelper ::
  "client \<Rightarrow> string \<Rightarrow> url \<Rightarrow> nat \<Rightarrow> string \<Rightarrow> call list \<Rightarrow> call list \<times> (error + body)" where
  "httpRequestHelper cl meth u expectedResponseCode errormsg log =
     (let c = \<lparr>httpMethod = meth, target = u, expected = expectedResponseCode, caller = errormsg\<rparr>
      in (log @ [c], check_reply (cl log c) expectedResponseCode))"

text \<open>What a handler leaves behind: the declaration, the calls made, and its outcome.\<close>

record run =
  data :: ResourceData
  calls :: "call list"
  out :: outcome

section \<open>The permissions resource\<close>

text \<open>
  Every handler starts from a copy of the base URL of the provider configuration and
  replaces its path by the base path, without a closing slash, and the path of the
  endpoint.
\<close>

definition api_path :: "url \<Rightarrow> string \<Rightarrow> url" where
  "api_path u endpoint = u\<lparr>Path := TrimSuffix (Path u) ''/'' @ endpoint\<rparr>"

text \<open>
  The messages of the two errors for the special group without a template (a message
  ends with a single quote, written as its character code).
\<close>

definition create_no_template :: error where
  "create_no_template =
     Errorf (''resourceSonarqubePermissionsCreate: 'templateId' or 'templateName' must be set when 'special_group_name' is set to 'project_creator'' @ [CHR 0x27])"

definition delete_no_template :: error where
  "delete_no_template =
     Errorf (''resourceSonarqubePermissionsDelete: 'templateId' or 'templateName' must be set when 'special_group_name' is set to 'project_creator'' @ [CHR 0x27])"

text \<open>
  The first part of \<open>resourceSonarqubePermissionsCreate\<close>: the base query and the
  endpoint for the principal and the scope of the declaration, or the error of the
  special group without a template.
\<close>

definition create_target :: "ResourceData \<Rightarrow> url \<Rightarrow> error + (url \<times> Values)" where
  "create_target d sqURL =
     (let query =
            (if snd (GetOk d ''project_key'')
             then Values_Add ''projectKey'' (fst (GetOk d ''project_key'')) []
             else [])
      in if snd (GetOk d ''login_name'') then
           (let query = Values_Add ''login'' (Get d ''login_name'') query
            in if snd (GetOk d ''template_id'') then
                 Inr (api_path sqURL ''/api/permissions/add_user_to_template'',
                      Values_Add ''templateId'' (fst (GetOk d ''template_id'')) query)
               else if snd (GetOk d ''template_name'') then
                 Inr (api_path sqURL ''/api/permissions/add_user_to_template'',
                      Values_Add ''templateName'' (fst (GetOk d ''template_name'')) query)
               else Inr (api_path sqURL ''/api/permissions/add_user'', query))
         else if snd (GetOk d ''group_name'') then
           (let query = Values_Add ''groupName'' (Get d ''group_name'') query
            in if snd (GetOk d ''template_id'') then
                 Inr (api_path sqURL ''/api/permissions/add_group_to_template'',
                      Values_Add ''templateId'' (fst (GetOk d ''template_id'')) query)
               else if snd (GetOk d ''template_name'') then
                 Inr (api_path sqURL ''/api/permissions/add_group_to_template'',
                      Values_Add ''templateName'' (fst (GetOk d ''template_name'')) query)
               else Inr (api_path sqURL ''/api/permissions/add_group'', query))
         else
           (let sqURL =
                  api_path sqURL ''/api/permissions/add_project_creator_to_template''
            in if snd (GetOk d ''template_id'') then
                 Inr (sqURL,
                      Values_Add ''templateId'' (fst (GetOk d ''template_id'')) query)
               else if snd (GetOk d ''template_name'') then
                 Inr (sqURL,
                      Values_Add ''templateName'' (fst (GetOk d ''template_name'')) query)
               else Inl create_no_template))"

definition loop_error :: "error \<Rightarrow> error" where
  "loop_error err = Errorf (''error creating Sonarqube permission: '' @ error_text err)"

text \<open>
  The loop over the permissions, the same in Create and Delete but for the name passed
  to the helper. \<open>CurrentRawQuery\<close> is the map \<open>RawQuery\<close> itself (a Go map is a
  reference), so the query goes on to the next round with the permission of this one.
  The first error of the helper ends the loop and the handler; its message is the same
  in Create and in Delete.
\<close>

fun permission_loop ::
  "client \<Rightarrow> string \<Rightarrow> string list \<Rightarrow> url \<Rightarrow> Values \<Rightarrow> call list \<Rightarrow> call list \<times> error option" where
  "permission_loop cl name [] sqURL query log = (log, None)"
| "permission_loop cl name (permission # permissions) sqURL query log =
     (let CurrentRawQuery = Values_Add ''permission'' permission (Values_Del ''permission'' query);
          sqURL = sqURL\<lparr>RawQuery := Encode CurrentRawQuery\<rparr>
      in case httpRequestHelper cl ''POST'' sqURL 204 name log of
           (log', Inl err) \<Rightarrow>
             (log', Some (loop_error err))
         | (log', Inr resp) \<Rightarrow>
             permission_loop cl name permissions sqURL CurrentRawQuery log')"

text \<open>The scans of \<open>resourceSonarqubePermissionsRead\<close>: the first entry that matches.\<close>

fun scan_users :: "User list \<Rightarrow> string \<Rightarrow> ResourceData \<Rightarrow> ResourceData option" where
  "scan_users [] loginName d = None"
| "scan_users (val # users) loginName d =
     (if EqualFold (Login val) loginName
      then Some (SetList ''permissions'' (flattenPermissions (Some (UserPermissions val)))
                   (Set ''login_name'' (Login val) d))
      else scan_users users loginName d)"

fun scan_groups :: "GroupPermission list \<Rightarrow> string \<Rightarrow> ResourceData \<Rightarrow> ResourceData option" where
  "scan_groups [] groupName d = None"
| "scan_groups (val # groups) groupName d =
     (if EqualFold (Name val) groupName
      then Some (SetList ''permissions'' (flattenPermissions (Some (GroupPermissions val)))
                   (Set ''group_name'' (Name val) d))
      else scan_groups groups groupName d)"

fun scan_templates ::
  "PermissionTemplate list \<Rightarrow> string \<Rightarrow> string \<Rightarrow> ResourceData \<Rightarrow> ResourceData option" where
  "scan_templates [] templateId templateName d = None"
| "scan_templates (val # templates) templateId templateName d =
     (if EqualFold (TemplateID val) templateId \<or> EqualFold (TemplateName val) templateName
      then Some (SetList ''permissions''
                   (flattenProjectCreatorPermissions (Some (TemplatePermissions val)))
                   (Set ''special_group_name'' ''project_creator'' d))
      else scan_templates templates templateId templateName d)"

text \<open>
  The GET of Read, the decoding errors and the last line of Read. Read is given in
  parts: the base query, the URL of each of its three branches, and each branch from
  its request on.
\<close>

definition read_get :: "ProviderConfiguration \<Rightarrow> url \<Rightarrow> call list \<Rightarrow> call list \<times> (error + body)" where
  "read_get m sqURL log =
     httpRequestHelper (httpClient m) ''GET'' sqURL 200
       ''resourceSonarqubePermissionsRead'' log"

definition read_error :: "error \<Rightarrow> error" where
  "read_error err = Errorf (''error reading Sonarqube permissions: '' @ error_text err)"

definition decode_error :: "string \<Rightarrow> error" where
  "decode_error err =
     Errorf (''resourceSonarqubePermissionsRead: Failed to decode json into struct: '' @ err)"

definition not_found :: "ResourceData \<Rightarrow> error" where
  "not_found d =
     Errorf (''resourceSonarqubePermissionsRead: Unable to find group permissions for group: '' @ Id d)"

definition user_url :: "ResourceData \<Rightarrow> ProviderConfiguration \<Rightarrow> Values \<Rightarrow> url" where
  "user_url d m query =
     (let (sqURL, query) =
            (if snd (GetOk d ''template_id'') then
               (api_path (sonarQubeURL m) ''/api/permissions/template_users'',
                Values_Add ''templateId'' (fst (GetOk d ''template_id'')) query)
             else if snd (GetOk d ''template_name'') then
               (api_path (sonarQubeURL m) ''/api/permissions/template_users'',
                Values_Add ''templateName'' (fst (GetOk d ''template_name'')) query)
             else (api_path (sonarQubeURL m) ''/api/permissions/users'', query))
      in sqURL\<lparr>RawQuery := Encode query\<rparr>)"

definition read_user :: "ResourceData \<Rightarrow> ProviderConfiguration \<Rightarrow> Values \<Rightarrow> call list \<Rightarrow> run" where
  "read_user d m query log =
     (case read_get m (user_url d m query) log of
           (log', Inl err) \<Rightarrow> \<lparr>data = d, calls = log', out = Failure (read_error err)\<rparr>
         | (log', Inr resp) \<Rightarrow>
             (case decode_GetUser resp of
                Inl err \<Rightarrow> \<lparr>data = d, calls = log', out = Failure (decode_error err)\<rparr>
              | Inr users \<Rightarrow>
                  (case scan_users users (Get d ''login_name'') d of
                     Some d' \<Rightarrow> \<lparr>data = d', calls = log', out = Success\<rparr>
                   | None \<Rightarrow> \<lparr>data = d, calls = log', out = Failure (not_found d)\<rparr>)))"

definition group_url :: "ResourceData \<Rightarrow> ProviderConfiguration \<Rightarrow> Values \<Rightarrow> url" where
  "group_url d m query =
     (let (sqURL, query) =
            (if snd (GetOk d ''template_id'') then
               (api_path (sonarQubeURL m) ''/api/permissions/template_groups'',
                Values_Add ''templateId'' (fst (GetOk d ''template_id'')) query)
             else if snd (GetOk d ''template_name'') then
               (api_path (sonarQubeURL m) ''/api/permissions/template_groups'',
                Values_Add ''templateName'' (fst (GetOk d ''template_name'')) query)
             else (api_path (sonarQubeURL m) ''/api/permissions/groups'', query))
      in sqURL\<lparr>RawQuery := Encode query\<rparr>)"

definition read_group :: "ResourceData \<Rightarrow> ProviderConfiguration \<Rightarrow> Values \<Rightarrow> call list \<Rightarrow> run" where
  "read_group d m query log =
     (case read_get m (group_url d m query) log of
           (log', Inl err) \<Rightarrow> \<lparr>data = d, calls = log', out = Failure (read_error err)\<rparr>
         | (log', Inr resp) \<Rightarrow>
             (case decode_GetGroupPermissions resp of
                Inl err \<Rightarrow> \<lparr>data = d, calls = log', out = Failure (decode_error err)\<rparr>
              | Inr groups \<Rightarrow>
                  (case scan_groups groups (Get d ''group_name'') d of
                     Some d' \<Rightarrow> \<lparr>data = d', calls = log', out = Success\<rparr>
                   | None \<Rightarrow> \<lparr>data = d, calls = log', out = Failure (not_found d)\<rparr>)))"

definition creator_url :: "ResourceData \<Rightarrow> ProviderConfiguration \<Rightarrow> Values \<Rightarrow> url" where
  "creator_url d m query =
     (let query =
            (if snd (GetOk d ''template_name'')
             then Values_Add ''templateName'' (fst (GetOk d ''template_name'')) query
             else query);
          sqURL = api_path (sonarQubeURL m) ''/api/permissions/search_templates''
      in sqURL\<lparr>RawQuery := Encode query\<rparr>)"

definition read_creator :: "ResourceData \<Rightarrow> ProviderConfiguration \<Rightarrow> Values \<Rightarrow> call list \<Rightarrow> run" where
  "read_creator d m query log =
     (case read_get m (creator_url d m query) log of
           (log', Inl err) \<Rightarrow> \<lparr>data = d, calls = log', out = Failure (read_error err)\<rparr>
         | (log', Inr resp) \<Rightarrow>
             (case decode_GetPermissionTemplates resp of
                Inl err \<Rightarrow> \<lparr>data = d, calls = log', out = Failure (decode_error err)\<rparr>
              | Inr permissionTemplates \<Rightarrow>
                  (case scan_templates permissionTemplates
                          (Get d ''template_id'') (Get d ''template_name'') d of
                     Some d' \<Rightarrow> \<lparr>data = d', calls = log', out = Success\<rparr>
                   | None \<Rightarrow> \<lparr>data = d, calls = log', out = Failure (not_found d)\<rparr>)))"

definition read_query :: "ResourceData \<Rightarrow> Values" where
  "read_query d =
     (let query = [(''ps'', [''100''])]
      in if snd (GetOk d ''project_key'')
         then Values_Add ''projectKey'' (fst (GetOk d ''project_key'')) query
         else query)"

definition resourceSonarqubePermissionsRead ::
  "ResourceData \<Rightarrow> ProviderConfiguration \<Rightarrow> call list \<Rightarrow> run" where
  "resourceSonarqubePermissionsRead d m log =
     (let query = read_query d
      in if snd (GetOk d ''login_name'') then read_user d m query log
         else if snd (GetOk d ''group_name'') then read_group d m query log
         else read_creator d m query log)"

text \<open>
  \<open>resourceSonarqubePermissionsCreate\<close>. The identifier that \<open>uuid.NewV4\<close> draws is an
  argument of the model.
\<close>

definition resourceSonarqubePermissionsCreate ::
  "ResourceData \<Rightarrow> ProviderConfiguration \<Rightarrow> string \<Rightarrow> call list \<Rightarrow> run" where
  "resourceSonarqubePermissionsCreate d m uuid log =
     (case expandPermissions d of
        None \<Rightarrow> \<lparr>data = d, calls = log, out = Panicked ''interface conversion''\<rparr>
      | Some permissions \<Rightarrow>
          (case create_target d (sonarQubeURL m) of
             Inl err \<Rightarrow> \<lparr>data = d, calls = log, out = Failure err\<rparr>
           | Inr (sqURL, query) \<Rightarrow>
               (case permission_loop (httpClient m) ''resourceSonarqubePermissionsCreate''
                       permissions sqURL query log of
                  (log', Some err) \<Rightarrow> \<lparr>data = d, calls = log', out = Failure err\<rparr>
                | (log', None) \<Rightarrow> resourceSonarqubePermissionsRead (SetId uuid d) m log')))"

text \<open>The first part of \<open>resourceSonarqubePermissionsDelete\<close>.\<close>

definition delete_target :: "ResourceData \<Rightarrow> url \<Rightarrow> error + (url \<times> Values)" where
  "delete_target d sqURL =
     (let query =
            (if snd (GetOk d ''project_key'')
             then Values_Add ''projectKey'' (fst (GetOk d ''project_key'')) []
             else [])
      in if snd (GetOk d ''login_name'') then
           (let (sqURL, query) =
                  (if snd (GetOk d ''template_id'') then
                     (api_path sqURL ''/api/permissions/remove_user_from_template'',
                      Values_Add ''templateId'' (fst (GetOk d ''template_id'')) query)
                   else if snd (GetOk d ''template_name'') then
                     (api_path sqURL ''/api/permissions/remove_user_from_template'',
                      Values_Add ''templateName'' (fst (GetOk d ''template_name'')) query)
                   else (api_path sqURL ''/api/permissions/remove_user'', query));
                query = Values_Add ''login'' (Get d ''login_name'') query
            in Inr (sqURL\<lparr>RawQuery := Encode query\<rparr>, query))
         else if snd (GetOk d ''group_name'') then
           (let (sqURL, query) =
                  (if snd (GetOk d ''template_id'') then
                     (api_path sqURL ''/api/permissions/remove_group_from_template'',
                      Values_Add ''templateId'' (fst (GetOk d ''template_id'')) query)
                   else if snd (GetOk d ''template_name'') then
                     (api_path sqURL ''/api/permissions/remove_group_from_template'',
                      Values_Add ''templateName'' (fst (GetOk d ''template_name'')) query)
                   else (api_path sqURL ''/api/permissions/remove_group'', query));
                query = Values_Add ''groupName'' (Get d ''group_name'') query
            in Inr (sqURL\<lparr>RawQuery := Encode query\<rparr>, query))
         else
           (let sqURL =
                  api_path sqURL ''/api/permissions/remove_project_creator_from_template''
            in if snd (GetOk d ''template_id'') then
                 Inr (sqURL,
                      Values_Add ''templateId'' (fst (GetOk d ''template_id'')) query)
               else if snd (GetOk d ''template_name'') then
                 Inr (sqURL,
                      Values_Add ''templateName'' (fst (GetOk d ''template_name'')) query)
               else Inl delete_no_template))"

definition resourceSonarqubePermissionsDelete ::
  "ResourceData \<Rightarrow> ProviderConfiguration \<Rightarrow> call list \<Rightarrow> run" where
  "resourceSonarqubePermissionsDelete d m log =
     (case expandPermissions d of
        None \<Rightarrow> \<lparr>data = d, calls = log, out = Panicked ''interface conversion''\<rparr>
      | Some permissions \<Rightarrow>
          (case delete_target d (sonarQubeURL m) of
             Inl err \<Rightarrow> \<lparr>data = d, calls = log, out = Failure err\<rparr>
           | Inr (sqURL, query) \<Rightarrow>
               (case permission_loop (httpClient m) ''resourceSonarqubePermissionsDelete''
                       permissions sqURL query log of
                  (log', Some err) \<Rightarrow> \<lparr>data = d, calls = log', out = Failure err\<rparr>
                | (log', None) \<Rightarrow> \<lparr>data = d, calls = log', out = Success\<rparr>)))"

section \<open>The GitLab binding resource\<close>

definition unsupported_edition :: "ProviderConfiguration \<Rightarrow> error" where
  "unsupported_edition conf =
     Errorf (''GitLab Bindings are not supported in the Community edition of SonarQube. You are using: SonarQube ''
             @ sonarQubeEdition conf @ '' version '' @ sonarQubeVersion conf)"

definition checkGitlabBindingSupport :: "ProviderConfiguration \<Rightarrow> error option" where
  "checkGitlabBindingSupport conf =
     (if ToLower (sonarQubeEdition conf) = ''community''
      then Some (unsupported_edition conf)
      else None)"

definition binding_not_found :: "ResourceData \<Rightarrow> error" where
  "binding_not_found d =
     Errorf (''resourceSonarqubeGitlabBindingRead: Failed to find gitlab binding: '' @ Id d)"

definition binding_decode_error :: "string \<Rightarrow> error" where
  "binding_decode_error err =
     Errorf (''resourceSonarqubeGitlabBindingRead: Failed to decode json into struct: '' @ err)"

definition binding_url :: "ProviderConfiguration \<Rightarrow> string \<Rightarrow> url" where
  "binding_url m project =
     (let sqURL = api_path (sonarQubeURL m) ''/api/alm_settings/get_binding''
      in sqURL\<lparr>RawQuery := Encode [(''project'', [project])]\<rparr>)"

definition index_panic :: string where
  "index_panic = ''runtime error: index out of range [1] with length 1''"

text \<open>
  \<open>resourceSonarqubeGitlabBindingRead\<close>. \<open>idSlice[0]\<close> is read for the query, before
  the request; \<open>idSlice[1]\<close> is read in the comparison, after the response has been
  decoded, and panics there when the slice has one element.
\<close>

definition resourceSonarqubeGitlabBindingRead ::
  "ResourceData \<Rightarrow> ProviderConfiguration \<Rightarrow> call list \<Rightarrow> run" where
  "resourceSonarqubeGitlabBindingRead d m log =
     (case checkGitlabBindingSupport m of
        Some err \<Rightarrow> \<lparr>data = d, calls = log, out = Failure err\<rparr>
      | None \<Rightarrow>
          (case SplitN2 (Id d) (CHR ''/'') of
             [] \<Rightarrow> \<lparr>data = d, calls = log,
                     out = Panicked ''runtime error: index out of range [0] with length 0''\<rparr>
           | idSlice0 # idSlice' \<Rightarrow>
               (case httpRequestHelper (httpClient m) ''GET'' (binding_url m idSlice0) 200
                          ''resourceSonarqubeGitlabBindingRead'' log of
                     (log', Inl err) \<Rightarrow> \<lparr>data = d, calls = log', out = Failure err\<rparr>
                   | (log', Inr resp) \<Rightarrow>
                       (case decode_GetBinding resp of
                          Inl err \<Rightarrow>
                            \<lparr>data = d, calls = log', out = Failure (binding_decode_error err)\<rparr>
                        | Inr BindingReadResponse \<Rightarrow>
                            (case idSlice' of
                               [] \<Rightarrow> \<lparr>data = d, calls = log', out = Panicked index_panic\<rparr>
                             | idSlice1 # rest \<Rightarrow>
                                 if idSlice1 = Repository BindingReadResponse
                                    \<and> Alm BindingReadResponse = ''gitlab''
                                 then \<lparr>data =
                                         Set ''monorepo'' (FormatBool (Monorepo BindingReadResponse))
                                           (Set ''alm_setting'' (BindingKey BindingReadResponse)
                                             (Set ''repository'' idSlice1
                                               (Set ''project'' idSlice0 d))),
                                       calls = log', out = Success\<rparr>
                                 else \<lparr>data = d, calls = log',
                                       out = Failure (binding_not_found d)\<rparr>)))))"

text \<open>\<open>resourceSonarqubeGitlabBindingCreate\<close>, which is the Update of the resource as well.\<close>

definition resourceSonarqubeGitlabBindingCreate ::
  "ResourceData \<Rightarrow> ProviderConfiguration \<Rightarrow> call list \<Rightarrow> run" where
  "resourceSonarqubeGitlabBindingCreate d m log =
     (case checkGitlabBindingSupport m of
        Some err \<Rightarrow> \<lparr>data = d, calls = log, out = Failure err\<rparr>
      | None \<Rightarrow>
          (let sqURL = api_path (sonarQubeURL m) ''/api/alm_settings/set_gitlab_binding'';
               sqURL = sqURL\<lparr>RawQuery :=
                         Encode [(''almSetting'', [Get d ''alm_setting'']),
                                 (''monorepo'', [Get d ''monorepo'']),
                                 (''project'', [Get d ''project'']),
                                 (''repository'', [Get d ''repository''])]\<rparr>
           in case httpRequestHelper (httpClient m) ''POST'' sqURL 204
                     ''resourceSonarqubeGitlabBindingCreate'' log of
                (log', Inl err) \<Rightarrow> \<lparr>data = d, calls = log', out = Failure err\<rparr>
              | (log', Inr resp) \<Rightarrow>
                  resourceSonarqubeGitlabBindingRead
                    (SetId (Get d ''project'' @ ''/'' @ Get d ''repository'') d) m log'))"

definition resourceSonarqubeGitlabBindingUpdate ::
  "ResourceData \<Rightarrow> ProviderConfiguration \<Rightarrow> call list \<Rightarrow> run" where
  "resourceSonarqubeGitlabBindingUpdate = resourceSonarqubeGitlabBindingCreate"

definition resourceSonarqubeGitlabBindingDelete ::
  "ResourceData \<Rightarrow> ProviderConfiguration \<Rightarrow> call list \<Rightarrow> run" where
  "resourceSonarqubeGitlabBindingDelete d m log =
     (case checkGitlabBindingSupport m of
        Some err \<Rightarrow> \<lparr>data = d, calls = log, out = Failure err\<rparr>
      | None \<Rightarrow>
          (let sqURL = api_path (sonarQubeURL m) ''/api/alm_settings/delete_binding'';
               sqURL = sqURL\<lparr>RawQuery := Encode [(''project'', [Get d ''project''])]\<rparr>
           in case httpRequestHelper (httpClient m) ''POST'' sqURL 204
                     ''resourceSonarqubeGitlabBindingDelete'' log of
                (log', Inl err) \<Rightarrow> \<lparr>data = d, calls = log', out = Failure err\<rparr>
              | (log', Inr resp) \<Rightarrow> \<lparr>data = d, calls = log', out = Success\<rparr>))"

text \<open>
  \<open>resourceSonarqubeGitlabBindingImport\<close>: the run of Read, and the slice it returns
  with it (empty for \<open>nil\<close>).
\<close>

definition resourceSonarqubeGitlabBindingImport ::
  "ResourceData \<Rightarrow> ProviderConfiguration \<Rightarrow> call list \<Rightarrow> run \<times> ResourceData list" where
  "resourceSonarqubeGitlabBindingImport d m log =
     (let r = resourceSonarqubeGitlabBindingRead d m log
      in case out r of
           Success \<Rightarrow> (r, [data r])
         | Failure err \<Rightarrow> (r, [])
         | Panicked msg \<Rightarrow> (r, []))"

section \<open>The calls a handler is expected to make\<close>

text \<open>
  The call of the permission loop for one permission value, from the endpoint and the
  base query the first part of the handler has computed.
\<close>

definition permission_call :: "string \<Rightarrow> url \<Rightarrow> Values \<Rightarrow> string \<Rightarrow> call" where
  "permission_call name sqURL query permission =
     \<lparr>httpMethod = ''POST'',
      target = sqURL\<lparr>RawQuery :=
                 Encode (Values_Add ''permission'' permission (Values_Del ''permission'' query))\<rparr>,
      expected = 204, caller = name\<rparr>"

text \<open>
  The index of the first call of a list that the server does not answer with the
  expected status, when the calls are made one after the other.
\<close>

fun first_refusal :: "client \<Rightarrow> call list \<Rightarrow> call list \<Rightarrow> nat option" where
  "first_refusal cl log [] = None"
| "first_refusal cl log (c # cs) =
     (case check_reply (cl log c) (expected c) of
        Inl err \<Rightarrow> Some 0
      | Inr b \<Rightarrow> map_option Suc (first_refusal cl (log @ [c]) cs))"

text \<open>A call written out: method, endpoint under the base URL, query, status, caller.\<close>

definition api_call :: "url \<Rightarrow> string \<Rightarrow> string \<Rightarrow> string \<Rightarrow> nat \<Rightarrow> string \<Rightarrow> call" where
  "api_call base meth endpoint q status name =
     \<lparr>httpMethod = meth,
      target = base\<lparr>Path := TrimSuffix (Path base) ''/'' @ endpoint, RawQuery := q\<rparr>,
      expected = status, caller = name\<rparr>"

text \<open>The GET of the permissions Read and of the binding Read.\<close>

definition read_url :: "ResourceData \<Rightarrow> ProviderConfiguration \<Rightarrow> url" where
  "read_url d m =
     (if snd (GetOk d ''login_name'') then user_url d m (read_query d)
      else if snd (GetOk d ''group_name'') then group_url d m (read_query d)
      else creator_url d m (read_query d))"

definition read_call :: "url \<Rightarrow> call" where
  "read_call sqURL =
     \<lparr>httpMethod = ''GET'', target = sqURL, expected = 200,
      caller = ''resourceSonarqubePermissionsRead''\<rparr>"

definition binding_call :: "url \<Rightarrow> call" where
  "binding_call sqURL =
     \<lparr>httpMethod = ''GET'', target = sqURL, expected = 200,
      caller = ''resourceSonarqubeGitlabBindingRead''\<rparr>"



text \<open>
  The declaration after Read has found the entry \<open>v\<close>: the name as the server writes
  it, and the permissions of the entry.
\<close>

definition user_match :: "ResourceData \<Rightarrow> User \<Rightarrow> ResourceData" where
  "user_match d v =
     (Set ''login_name'' (Login v) d)
       \<lparr>list_attrs := (list_attrs d)(''permissions'' := UserPermissions v)\<rparr>"

definition group_match :: "ResourceData \<Rightarrow> GroupPermission \<Rightarrow> ResourceData" where
  "group_match d v =
     (Set ''group_name'' (Name v) d)
       \<lparr>list_attrs := (list_attrs d)(''permissions'' := GroupPermissions v)\<rparr>"

definition template_match :: "ResourceData \<Rightarrow> PermissionTemplate \<Rightarrow> ResourceData" where
  "template_match d v =
     (Set ''special_group_name'' ''project_creator'' d)
       \<lparr>list_attrs := (list_attrs d)(''permissions'' :=
          map Key (filter WithProjectCreator (TemplatePermissions v)))\<rparr>"

text \<open>The declaration after the binding Read has found its binding.\<close>

definition binding_match :: "ResourceData \<Rightarrow> string \<Rightarrow> string \<Rightarrow> GetBinding \<Rightarrow> ResourceData" where
  "binding_match d project repository r =
     Set ''monorepo'' (FormatBool (Monorepo r))
       (Set ''alm_setting'' (BindingKey r)
         (Set ''repository'' repository (Set ''project'' project d)))"

section \<open>Example declarations and servers\<close>

text \<open>Concrete inputs, on which the theorems below are run.\<close>

definition base_url :: url where
  "base_url = \<lparr>Scheme = ''https'', Host = ''sonar.example.org'', Path = ''/'', RawQuery = ''''\<rparr>"

definition no_attrs :: ResourceData where
  "no_attrs = \<lparr>Id = '''', attrs = (\<lambda>key. ''''), list_attrs = (\<lambda>key. [])\<rparr>"

definition alice_decl :: ResourceData where
  "alice_decl =
     no_attrs\<lparr>attrs := (\<lambda>key. '''')(''login_name'' := ''alice'', ''project_key'' := ''proj1''),
              list_attrs := (\<lambda>key. [])(''permissions'' := [''user'', ''scan''])\<rparr>"

definition creator_decl :: ResourceData where
  "creator_decl =
     no_attrs\<lparr>attrs := (\<lambda>key. '''')(''special_group_name'' := ''project_creator''),
              list_attrs := (\<lambda>key. [])(''permissions'' := [''admin''])\<rparr>"

definition binding_decl :: ResourceData where
  "binding_decl =
     no_attrs\<lparr>attrs := (\<lambda>key. '''')(''alm_setting'' := ''gl'', ''monorepo'' := ''false'',
                                      ''project'' := ''proj1'', ''repository'' := ''42'')\<rparr>"

definition sample_body :: body where
  "sample_body =
     \<lparr>decode_GetUser =
        Inr [\<lparr>Login = ''bob'', UserPermissions = [''admin'']\<rparr>,
             \<lparr>Login = ''Alice'', UserPermissions = [''scan'', ''user'']\<rparr>],
      decode_GetGroupPermissions =
        Inr [\<lparr>GroupId = ''1'', Name = ''Sonar-Users'', Description = '''',
               GroupPermissions = [''user'']\<rparr>],
      decode_GetPermissionTemplates =
        Inr [\<lparr>TemplateID = ''t1'', TemplateName = ''Default'',
               TemplatePermissions =
                 [\<lparr>Key = ''admin'', WithProjectCreator = True\<rparr>,
                  \<lparr>Key = ''user'', WithProjectCreator = False\<rparr>]\<rparr>],
      decode_GetBinding =
        Inr \<lparr>BindingKey = ''gl'', Repository = ''42'', Alm = ''gitlab'', Monorepo = False\<rparr>\<rparr>"

text \<open>A server that accepts every call, and one that is not reachable.\<close>

definition obliging :: client where
  "obliging log c = Response (expected c) sample_body"

definition unreachable :: client where
  "unreachable log c = NoResponse ''connection refused''"

text \<open>A server that accepts the first call only.\<close>

definition once :: client where
  "once log c = (if log = [] then Response (expected c) sample_body else Response 500 sample_body)"

definition conf_of :: "client \<Rightarrow> string \<Rightarrow> ProviderConfiguration" where
  "conf_of cl edition =
     \<lparr>httpClient = cl, sonarQubeURL = base_url, sonarQubeVersion = ''10.3'',
      sonarQubeEdition = edition\<rparr>"




section \<open>The codec: flatten and expand\<close>

lemma flatten_loop_append: "flatten_loop xs acc = acc @ map Str xs"
  by (induction xs arbitrary: acc) simp_all

lemma expand_loop_strings: "expand_loop (map Str xs) acc = Some (acc @ xs)"
  by (induction xs arbitrary: acc) simp_all

lemma the_strings_map_Str: "the_strings (map Str xs) = Some xs"
  by (induction xs) simp_all

lemma expandPermissions_total: "expandPermissions d = Some (list_attrs d ''permissions'')"
  by (simp add: expandPermissions_def GetList_def expand_loop_strings)

lemma flatten_creator_loop_append:
  "flatten_creator_loop ps acc = acc @ map (\<lambda>p. Str (Key p)) (filter WithProjectCreator ps)"
  by (induction ps arbitrary: acc) simp_all

text \<open>
  Claim C10. Flattening a list of permission strings gives the same strings in the
  same order, nothing sorted and nothing removed; storing the flattened list in the
  declaration and expanding it gives the list back.
\<close>

theorem flatten_expand_identity:
  "flattenPermissions (Some xs) = map Str xs \<and>
   expandPermissions (SetList ''permissions'' (flattenPermissions (Some xs)) d) = Some xs"
  by (simp add: flattenPermissions_def flatten_loop_append SetList_def the_strings_map_Str
      expandPermissions_total)

text \<open>
  Claim C7. Flattening the permissions of a template for the project creator keeps the
  entries whose \<open>withProjectCreator\<close> flag is set, in the order received, and gives
  their keys; a nil pointer gives the empty list.
\<close>

theorem flatten_project_creator_filter:
  "flattenProjectCreatorPermissions (Some ps) =
     map (\<lambda>p. Str (Key p)) (filter WithProjectCreator ps) \<and>
   flattenProjectCreatorPermissions None = []"
  by (simp add: flattenProjectCreatorPermissions_def flatten_creator_loop_append)

section \<open>The special group without a template\<close>

lemma create_target_no_template:
  assumes "Get d ''login_name'' = []" and "Get d ''group_name'' = []"
    and "Get d ''template_id'' = []" and "Get d ''template_name'' = []"
  shows "create_target d u = Inl create_no_template"
  using assms by (simp add: create_target_def GetOk_def Get_def Let_def)

lemma delete_target_no_template:
  assumes "Get d ''login_name'' = []" and "Get d ''group_name'' = []"
    and "Get d ''template_id'' = []" and "Get d ''template_name'' = []"
  shows "delete_target d u = Inl delete_no_template"
  using assms by (simp add: delete_target_def GetOk_def Get_def Let_def)

text \<open>
  Claim C1. When neither \<open>login_name\<close> nor \<open>group_name\<close> is set (the special group)
  and neither \<open>template_id\<close> nor \<open>template_name\<close> is set, Create and Delete return
  their configuration error, the list of calls is the one they started with (no request
  is issued), and the declaration is untouched.
\<close>

theorem special_group_without_template:
  assumes "Get d ''login_name'' = []" and "Get d ''group_name'' = []"
    and "Get d ''template_id'' = []" and "Get d ''template_name'' = []"
  shows "resourceSonarqubePermissionsCreate d m uuid log =
           \<lparr>data = d, calls = log, out = Failure create_no_template\<rparr> \<and>
         resourceSonarqubePermissionsDelete d m log =
           \<lparr>data = d, calls = log, out = Failure delete_no_template\<rparr>"
  using assms
  by (simp add: resourceSonarqubePermissionsCreate_def resourceSonarqubePermissionsDelete_def
      expandPermissions_total create_target_no_template delete_target_no_template)

text \<open>
  The theorem on the declaration of the project creator with one permission and no
  template.
\<close>

theorem special_group_without_template_witness:
  "Get creator_decl ''login_name'' = [] \<and> Get creator_decl ''group_name'' = [] \<and>
   Get creator_decl ''template_id'' = [] \<and> Get creator_decl ''template_name'' = [] \<and>
   list_attrs creator_decl ''permissions'' = [''admin''] \<and>
   calls (resourceSonarqubePermissionsCreate creator_decl (conf_of obliging ''Developer'') ''u1'' []) = [] \<and>
   out (resourceSonarqubePermissionsCreate creator_decl (conf_of obliging ''Developer'') ''u1'' [])
     = Failure create_no_template \<and>
   calls (resourceSonarqubePermissionsDelete creator_decl (conf_of obliging ''Developer'') []) = [] \<and>
   out (resourceSonarqubePermissionsDelete creator_decl (conf_of obliging ''Developer'') [])
     = Failure delete_no_template"
  using special_group_without_template
    [of creator_decl "conf_of obliging ''Developer''" "''u1''" "[]"]
  by (simp add: creator_decl_def no_attrs_def Get_def)

section \<open>The edition gate of the binding resource\<close>

lemma of_char_shift_lower: "is_upper c \<Longrightarrow> of_char (shift_lower c) = of_char c + (32::nat)"
  by (simp add: is_upper_def shift_lower_def less_eq_char_def)

lemma shift_lower_not_upper: "is_upper c \<Longrightarrow> \<not> is_upper (shift_lower c)"
  using of_char_shift_lower [of c]
  by (simp add: is_upper_def less_eq_char_def)

lemma EqualFold_lower_byte:
  assumes "is_upper (min a b)" and "max a b = shift_lower (min a b)"
  shows "lower_byte a = lower_byte b"
proof (cases "a \<le> b")
  case True
  with assms have "is_upper a" "b = shift_lower a" by (simp_all add: min_def max_def)
  then show ?thesis using shift_lower_not_upper [of a] by (simp add: lower_byte_def)
next
  case False
  with assms have "is_upper b" "a = shift_lower b" by (simp_all add: min_def max_def)
  then show ?thesis using shift_lower_not_upper [of b] by (simp add: lower_byte_def)
qed

lemma EqualFold_ToLower: "EqualFold s t \<Longrightarrow> ToLower s = ToLower t"
proof (induction s t rule: EqualFold.induct)
  case (2 sr s tr t)
  show ?case
  proof (cases "tr = sr")
    case True
    with 2 show ?thesis by (simp add: ToLower_def)
  next
    case False
    with "2.prems" have fold: "is_upper (min sr tr)" "max sr tr = shift_lower (min sr tr)"
      and rest: "EqualFold s t"
      by (auto simp: Let_def split: if_splits)
    from False rest "2.IH"(2) fold have "ToLower s = ToLower t"
      by (simp add: Let_def)
    with EqualFold_lower_byte [OF fold] show ?thesis by (simp add: ToLower_def)
  qed
qed simp_all

lemma ToLower_community: "ToLower ''community'' = ''community''"
  by (simp add: ToLower_def lower_byte_def is_upper_def)

lemma community_unsupported:
  "EqualFold (sonarQubeEdition m) ''community'' \<Longrightarrow>
   checkGitlabBindingSupport m = Some (unsupported_edition m)"
  using EqualFold_ToLower [of "sonarQubeEdition m" "''community''"]
  by (simp add: checkGitlabBindingSupport_def ToLower_community)

text \<open>
  Claim C3. When the edition of the server equals \<open>community\<close> up to the case of its
  letters, Create, Update, Read, Delete and Import of the binding return the error that
  names the edition, and issue no request.
\<close>

theorem community_edition_no_binding:
  assumes "EqualFold (sonarQubeEdition m) ''community''"
  shows "resourceSonarqubeGitlabBindingCreate d m log =
           \<lparr>data = d, calls = log, out = Failure (unsupported_edition m)\<rparr> \<and>
         resourceSonarqubeGitlabBindingUpdate d m log =
           \<lparr>data = d, calls = log, out = Failure (unsupported_edition m)\<rparr> \<and>
         resourceSonarqubeGitlabBindingRead d m log =
           \<lparr>data = d, calls = log, out = Failure (unsupported_edition m)\<rparr> \<and>
         resourceSonarqubeGitlabBindingDelete d m log =
           \<lparr>data = d, calls = log, out = Failure (unsupported_edition m)\<rparr> \<and>
         resourceSonarqubeGitlabBindingImport d m log =
           (\<lparr>data = d, calls = log, out = Failure (unsupported_edition m)\<rparr>, [])"
  using community_unsupported [OF assms]
  by (simp add: resourceSonarqubeGitlabBindingCreate_def resourceSonarqubeGitlabBindingUpdate_def
      resourceSonarqubeGitlabBindingRead_def resourceSonarqubeGitlabBindingDelete_def
      resourceSonarqubeGitlabBindingImport_def)

text \<open>
  The theorem on the edition \<open>CommUNITY\<close>.
\<close>

theorem community_edition_no_binding_witness:
  "EqualFold ''CommUNITY'' ''community'' \<and>
   calls (resourceSonarqubeGitlabBindingCreate binding_decl (conf_of obliging ''CommUNITY'') []) = [] \<and>
   out (resourceSonarqubeGitlabBindingCreate binding_decl (conf_of obliging ''CommUNITY'') [])
     = Failure (Errorf ''GitLab Bindings are not supported in the Community edition of SonarQube. You are using: SonarQube CommUNITY version 10.3'') \<and>
   calls (resourceSonarqubeGitlabBindingRead binding_decl (conf_of obliging ''CommUNITY'') []) = [] \<and>
   calls (resourceSonarqubeGitlabBindingDelete binding_decl (conf_of obliging ''CommUNITY'') []) = []"
proof -
  have "EqualFold ''CommUNITY'' ''community''"
    by code_simp
  then have e: "EqualFold (sonarQubeEdition (conf_of obliging ''CommUNITY'')) ''community''"
    by (simp add: conf_of_def)
  show ?thesis
    using e community_edition_no_binding [OF e, of binding_decl "[]"]
    by (simp add: conf_of_def unsupported_edition_def)
qed

section \<open>The permission loop of Create and Delete\<close>

lemma Values_Add_fresh: "key \<notin> fst ` set v \<Longrightarrow> Values_Add key val v = v @ [(key, [val])]"
  by (induction v) auto

lemma Values_Del_absent: "key \<notin> fst ` set (Values_Del key v)"
  by (auto simp: Values_Del_def)

lemma Values_Del_Add_Del:
  "Values_Del key (Values_Add key val (Values_Del key v)) = Values_Del key v"
  by (simp add: Values_Add_fresh [OF Values_Del_absent]) (simp add: Values_Del_def)

lemma permission_call_next:
  "permission_call name (sqURL\<lparr>RawQuery := x\<rparr>)
     (Values_Add ''permission'' p (Values_Del ''permission'' query))
   = permission_call name sqURL query"
  by (rule ext) (simp add: permission_call_def Values_Del_Add_Del)

lemma helper_call:
  "httpRequestHelper cl ''POST''
     (sqURL\<lparr>RawQuery := Encode (Values_Add ''permission'' p (Values_Del ''permission'' query))\<rparr>)
     204 name log
   = (log @ [permission_call name sqURL query p],
      check_reply (cl log (permission_call name sqURL query p)) 204)"
  by (simp add: httpRequestHelper_def permission_call_def Let_def)

lemma permission_loop_step:
  "permission_loop cl name (p # ps) sqURL query log =
     (case check_reply (cl log (permission_call name sqURL query p)) 204 of
        Inl err \<Rightarrow> (log @ [permission_call name sqURL query p], Some (loop_error err))
      | Inr b \<Rightarrow>
          permission_loop cl name ps
            (sqURL\<lparr>RawQuery := Encode (Values_Add ''permission'' p (Values_Del ''permission'' query))\<rparr>)
            (Values_Add ''permission'' p (Values_Del ''permission'' query))
            (log @ [permission_call name sqURL query p]))"
  by (simp add: helper_call Let_def split: sum.splits)

lemma permission_loop_calls:
  "permission_loop cl name ps sqURL query log =
     (let cs = map (permission_call name sqURL query) ps
      in case first_refusal cl log cs of
           None \<Rightarrow> (log @ cs, None)
         | Some i \<Rightarrow>
             (log @ take (Suc i) cs,
              (case check_reply (cl (log @ take i cs) (cs ! i)) 204 of
                 Inl err \<Rightarrow> Some (loop_error err)
               | Inr b \<Rightarrow> None)))"
proof (induction ps arbitrary: sqURL query log)
  case Nil
  show ?case by simp
next
  case (Cons p ps)
  let ?c = "permission_call name sqURL query p"
  let ?u = "sqURL\<lparr>RawQuery := Encode (Values_Add ''permission'' p (Values_Del ''permission'' query))\<rparr>"
  let ?q = "Values_Add ''permission'' p (Values_Del ''permission'' query)"
  have exp: "expected ?c = 204" by (simp add: permission_call_def)
  have same: "permission_call name ?u ?q = permission_call name sqURL query"
    by (rule permission_call_next)
  show ?case
  proof (cases "check_reply (cl log ?c) 204")
    case (Inl err)
    then show ?thesis
      by (simp add: permission_loop_step exp Let_def del: permission_loop.simps)
  next
    case (Inr b)
    have "permission_loop cl name (p # ps) sqURL query log
            = permission_loop cl name ps ?u ?q (log @ [?c])"
      using Inr by (simp add: permission_loop_step del: permission_loop.simps)
    also note Cons.IH [of ?u ?q "log @ [?c]", unfolded same]
    finally show ?thesis
      using Inr
      by (cases "first_refusal cl (log @ [?c]) (map (permission_call name sqURL query) ps)")
        (simp_all add: exp Let_def)
  qed
qed

text \<open>What \<open>first_refusal\<close> says: the calls before the index are accepted, the one at the index is not.\<close>

lemma first_refusal_Some:
  "first_refusal cl log cs = Some i \<Longrightarrow>
   i < length cs \<and>
   (\<exists>err. check_reply (cl (log @ take i cs) (cs ! i)) (expected (cs ! i)) = Inl err) \<and>
   (\<forall>k<i. \<exists>b. check_reply (cl (log @ take k cs) (cs ! k)) (expected (cs ! k)) = Inr b)"
proof (induction cs arbitrary: log i)
  case Nil
  then show ?case by simp
next
  case (Cons c cs)
  show ?case
  proof (cases "check_reply (cl log c) (expected c)")
    case (Inl err)
    with Cons.prems show ?thesis by simp
  next
    case (Inr b)
    with Cons.prems obtain j where j: "first_refusal cl (log @ [c]) cs = Some j" and i: "i = Suc j"
      by auto
    from Cons.IH [OF j] Inr i show ?thesis
      by (auto simp: less_Suc_eq_0_disj)
  qed
qed

lemma first_refusal_None:
  "first_refusal cl log cs = None \<Longrightarrow>
   (\<forall>k<length cs. \<exists>b. check_reply (cl (log @ take k cs) (cs ! k)) (expected (cs ! k)) = Inr b)"
proof (induction cs arbitrary: log)
  case Nil
  then show ?case by simp
next
  case (Cons c cs)
  show ?case
  proof (cases "check_reply (cl log c) (expected c)")
    case (Inl err)
    with Cons.prems show ?thesis by simp
  next
    case (Inr b)
    with Cons.prems have "first_refusal cl (log @ [c]) cs = None" by simp
    from Cons.IH [OF this] Inr show ?thesis
      by (auto simp: less_Suc_eq_0_disj)
  qed
qed

lemma create_target_resolves:
  assumes "Get d ''login_name'' \<noteq> [] \<or> Get d ''group_name'' \<noteq> [] \<or>
           Get d ''template_id'' \<noteq> [] \<or> Get d ''template_name'' \<noteq> []"
  shows "\<exists>sqURL query. create_target d u = Inr (sqURL, query)"
  using assms by (auto simp: create_target_def GetOk_def Get_def Let_def)

lemma delete_target_resolves:
  assumes "Get d ''login_name'' \<noteq> [] \<or> Get d ''group_name'' \<noteq> [] \<or>
           Get d ''template_id'' \<noteq> [] \<or> Get d ''template_name'' \<noteq> []"
  shows "\<exists>sqURL query. delete_target d u = Inr (sqURL, query)"
  using assms by (auto simp: delete_target_def GetOk_def Get_def Let_def split: prod.splits)

lemma read_get_call:
  "read_get m u log = (log @ [read_call u], check_reply (httpClient m log (read_call u)) 200)"
  by (simp add: read_get_def httpRequestHelper_def read_call_def Let_def)

lemma read_calls:
  "calls (resourceSonarqubePermissionsRead d m log) = log @ [read_call (read_url d m)]"
  by (simp add: resourceSonarqubePermissionsRead_def read_url_def read_user_def read_group_def
      read_creator_def read_get_call Let_def split: sum.splits option.splits)

text \<open>
  Claim C2, for a declaration that names a user, a group or a template. Create and
  Delete make the calls of the list \<open>cs\<close> (\<open>ds\<close>): one POST per permission value, in
  the order of the declaration, each expecting status 204. When the server accepts all
  of them, Delete returns \<open>nil\<close> and Create goes on with Read, whose GET is the only
  other call. When the call for value \<open>i\<close> is the first one refused, the handler returns
  the error of the loop at once: the calls made are those for the values up to \<open>i\<close>,
  none for a later value and none that takes an earlier one back.
\<close>

theorem one_call_per_permission:
  assumes "Get d ''login_name'' \<noteq> [] \<or> Get d ''group_name'' \<noteq> [] \<or>
           Get d ''template_id'' \<noteq> [] \<or> Get d ''template_name'' \<noteq> []"
  shows "\<exists>cu cq du dq.
           create_target d (sonarQubeURL m) = Inr (cu, cq) \<and>
           delete_target d (sonarQubeURL m) = Inr (du, dq) \<and>
           (let cs = map (permission_call ''resourceSonarqubePermissionsCreate'' cu cq)
                       (list_attrs d ''permissions'');
                ds = map (permission_call ''resourceSonarqubePermissionsDelete'' du dq)
                       (list_attrs d ''permissions'')
            in (case first_refusal (httpClient m) log cs of
                  None \<Rightarrow>
                    resourceSonarqubePermissionsCreate d m uuid log =
                      resourceSonarqubePermissionsRead (SetId uuid d) m (log @ cs) \<and>
                    calls (resourceSonarqubePermissionsCreate d m uuid log) =
                      log @ cs @ [read_call (read_url (SetId uuid d) m)]
                | Some i \<Rightarrow>
                    (\<exists>err. check_reply (httpClient m (log @ take i cs) (cs ! i)) 204 = Inl err \<and>
                       resourceSonarqubePermissionsCreate d m uuid log =
                         \<lparr>data = d, calls = log @ take (Suc i) cs, out = Failure (loop_error err)\<rparr>)) \<and>
               (case first_refusal (httpClient m) log ds of
                  None \<Rightarrow>
                    resourceSonarqubePermissionsDelete d m log =
                      \<lparr>data = d, calls = log @ ds, out = Success\<rparr>
                | Some i \<Rightarrow>
                    (\<exists>err. check_reply (httpClient m (log @ take i ds) (ds ! i)) 204 = Inl err \<and>
                       resourceSonarqubePermissionsDelete d m log =
                         \<lparr>data = d, calls = log @ take (Suc i) ds, out = Failure (loop_error err)\<rparr>)))"
proof -
  from create_target_resolves [OF assms] obtain cu cq
    where c: "create_target d (sonarQubeURL m) = Inr (cu, cq)" by blast
  from delete_target_resolves [OF assms] obtain du dq
    where dl: "delete_target d (sonarQubeURL m) = Inr (du, dq)" by blast
  let ?cs = "map (permission_call ''resourceSonarqubePermissionsCreate'' cu cq)
               (list_attrs d ''permissions'')"
  let ?ds = "map (permission_call ''resourceSonarqubePermissionsDelete'' du dq)
               (list_attrs d ''permissions'')"
  have create: "case first_refusal (httpClient m) log ?cs of
                  None \<Rightarrow>
                    resourceSonarqubePermissionsCreate d m uuid log =
                      resourceSonarqubePermissionsRead (SetId uuid d) m (log @ ?cs) \<and>
                    calls (resourceSonarqubePermissionsCreate d m uuid log) =
                      log @ ?cs @ [read_call (read_url (SetId uuid d) m)]
                | Some i \<Rightarrow>
                    (\<exists>err. check_reply (httpClient m (log @ take i ?cs) (?cs ! i)) 204 = Inl err \<and>
                       resourceSonarqubePermissionsCreate d m uuid log =
                         \<lparr>data = d, calls = log @ take (Suc i) ?cs, out = Failure (loop_error err)\<rparr>)"
  proof (cases "first_refusal (httpClient m) log ?cs")
    case None
    then show ?thesis
      by (simp add: resourceSonarqubePermissionsCreate_def expandPermissions_total c
          permission_loop_calls read_calls)
  next
    case (Some i)
    from first_refusal_Some [OF Some] obtain err
      where "check_reply (httpClient m (log @ take i ?cs) (?cs ! i)) 204 = Inl err"
      by (auto simp: permission_call_def)
    with Some show ?thesis
      by (simp add: resourceSonarqubePermissionsCreate_def expandPermissions_total c
          permission_loop_calls)
  qed
  have delete: "case first_refusal (httpClient m) log ?ds of
                  None \<Rightarrow>
                    resourceSonarqubePermissionsDelete d m log =
                      \<lparr>data = d, calls = log @ ?ds, out = Success\<rparr>
                | Some i \<Rightarrow>
                    (\<exists>err. check_reply (httpClient m (log @ take i ?ds) (?ds ! i)) 204 = Inl err \<and>
                       resourceSonarqubePermissionsDelete d m log =
                         \<lparr>data = d, calls = log @ take (Suc i) ?ds, out = Failure (loop_error err)\<rparr>)"
  proof (cases "first_refusal (httpClient m) log ?ds")
    case None
    then show ?thesis
      by (simp add: resourceSonarqubePermissionsDelete_def expandPermissions_total dl
          permission_loop_calls)
  next
    case (Some i)
    from first_refusal_Some [OF Some] obtain err
      where "check_reply (httpClient m (log @ take i ?ds) (?ds ! i)) 204 = Inl err"
      by (auto simp: permission_call_def)
    with Some show ?thesis
      by (simp add: resourceSonarqubePermissionsDelete_def expandPermissions_total dl
          permission_loop_calls)
  qed
  from c dl create delete show ?thesis
    by (simp add: Let_def)
qed

lemma alice_create_target:
  "create_target alice_decl base_url =
     Inr (base_url\<lparr>Path := ''/api/permissions/add_user''\<rparr>,
          [(''projectKey'', [''proj1'']), (''login'', [''alice''])])"
  by code_simp

lemma alice_delete_target:
  "delete_target alice_decl base_url =
     Inr (base_url\<lparr>Path := ''/api/permissions/remove_user'',
                    RawQuery := ''login=alice&projectKey=proj1''\<rparr>,
          [(''projectKey'', [''proj1'']), (''login'', [''alice''])])"
  by code_simp

text \<open>
  The theorem on the declaration of alice with two permissions: a server that refuses
  the second call, and one that accepts both.
\<close>

theorem one_call_per_permission_witness:
  "Get alice_decl ''login_name'' \<noteq> [] \<and>
   list_attrs alice_decl ''permissions'' = [''user'', ''scan''] \<and>
   resourceSonarqubePermissionsCreate alice_decl (conf_of once ''Developer'') ''u1'' [] =
     \<lparr>data = alice_decl,
      calls = map (permission_call ''resourceSonarqubePermissionsCreate''
                     (base_url\<lparr>Path := ''/api/permissions/add_user''\<rparr>)
                     [(''projectKey'', [''proj1'']), (''login'', [''alice''])])
                [''user'', ''scan''],
      out = Failure (loop_error (TransportError (UnexpectedStatus 500)))\<rparr> \<and>
   resourceSonarqubePermissionsDelete alice_decl (conf_of once ''Developer'') [] =
     \<lparr>data = alice_decl,
      calls = map (permission_call ''resourceSonarqubePermissionsDelete''
                     (base_url\<lparr>Path := ''/api/permissions/remove_user''\<rparr>)
                     [(''projectKey'', [''proj1'']), (''login'', [''alice''])])
                [''user'', ''scan''],
      out = Failure (loop_error (TransportError (UnexpectedStatus 500)))\<rparr> \<and>
   resourceSonarqubePermissionsDelete alice_decl (conf_of obliging ''Developer'') [] =
     \<lparr>data = alice_decl,
      calls = map (permission_call ''resourceSonarqubePermissionsDelete''
                     (base_url\<lparr>Path := ''/api/permissions/remove_user''\<rparr>)
                     [(''projectKey'', [''proj1'']), (''login'', [''alice''])])
                [''user'', ''scan''],
      out = Success\<rparr>"
proof -
  have h: "Get alice_decl ''login_name'' \<noteq> []"
    by (simp add: alice_decl_def Get_def)
  have p: "list_attrs alice_decl ''permissions'' = [''user'', ''scan'']"
    by (simp add: alice_decl_def)
  have h': "Get alice_decl ''login_name'' \<noteq> [] \<or> Get alice_decl ''group_name'' \<noteq> [] \<or>
           Get alice_decl ''template_id'' \<noteq> [] \<or> Get alice_decl ''template_name'' \<noteq> []"
    using h by simp
  have once: "sonarQubeURL (conf_of once ''Developer'') = base_url"
      "httpClient (conf_of once ''Developer'') = once"
    by (simp_all add: conf_of_def)
  have obliging: "sonarQubeURL (conf_of obliging ''Developer'') = base_url"
      "httpClient (conf_of obliging ''Developer'') = obliging"
    by (simp_all add: conf_of_def)
  have a: "resourceSonarqubePermissionsCreate alice_decl (conf_of once ''Developer'') ''u1'' [] =
     \<lparr>data = alice_decl,
      calls = map (permission_call ''resourceSonarqubePermissionsCreate''
                     (base_url\<lparr>Path := ''/api/permissions/add_user''\<rparr>)
                     [(''projectKey'', [''proj1'']), (''login'', [''alice''])])
                [''user'', ''scan''],
      out = Failure (loop_error (TransportError (UnexpectedStatus 500)))\<rparr>"
    using one_call_per_permission [OF h', where m = "conf_of once ''Developer''" and log = "[]" and uuid = "''u1''"]
    by (simp add: once p alice_create_target alice_delete_target check_reply_def once_def
        permission_call_def)
  have b: "resourceSonarqubePermissionsDelete alice_decl (conf_of once ''Developer'') [] =
     \<lparr>data = alice_decl,
      calls = map (permission_call ''resourceSonarqubePermissionsDelete''
                     (base_url\<lparr>Path := ''/api/permissions/remove_user''\<rparr>)
                     [(''projectKey'', [''proj1'']), (''login'', [''alice''])])
                [''user'', ''scan''],
      out = Failure (loop_error (TransportError (UnexpectedStatus 500)))\<rparr>"
    using one_call_per_permission [OF h', where m = "conf_of once ''Developer''" and log = "[]" and uuid = "''u1''"]
    by (simp add: once p alice_create_target alice_delete_target check_reply_def once_def
        permission_call_def)
  have c: "resourceSonarqubePermissionsDelete alice_decl (conf_of obliging ''Developer'') [] =
     \<lparr>data = alice_decl,
      calls = map (permission_call ''resourceSonarqubePermissionsDelete''
                     (base_url\<lparr>Path := ''/api/permissions/remove_user''\<rparr>)
                     [(''projectKey'', [''proj1'']), (''login'', [''alice''])])
                [''user'', ''scan''],
      out = Success\<rparr>"
    using one_call_per_permission [OF h', where m = "conf_of obliging ''Developer''" and log = "[]" and uuid = "''u1''"]
    by (simp add: obliging p alice_create_target alice_delete_target check_reply_def obliging_def
        permission_call_def)
  from h p a b c show ?thesis by simp
qed

text \<open>
  Claim C2 as it is stated, for every declaration with a non-empty list of permissions,
  fails on the special group without a template: one permission is declared and no call
  is made.
\<close>

theorem no_call_without_target_counterexample:
  "list_attrs creator_decl ''permissions'' = [''admin''] \<and>
   calls (resourceSonarqubePermissionsCreate creator_decl (conf_of obliging ''Enterprise'') ''u2'' []) = [] \<and>
   calls (resourceSonarqubePermissionsDelete creator_decl (conf_of obliging ''Enterprise'') []) = []"
  by (simp add: creator_decl_def no_attrs_def resourceSonarqubePermissionsCreate_def
      resourceSonarqubePermissionsDelete_def expandPermissions_total create_target_def
      delete_target_def GetOk_def Get_def)

section \<open>The scans of Read\<close>

lemma flattenPermissions_Some: "flattenPermissions (Some xs) = map Str xs"
  by (simp add: flattenPermissions_def flatten_loop_append)

lemma SetList_strings:
  "SetList key (map Str xs) d = d\<lparr>list_attrs := (list_attrs d)(key := xs)\<rparr>"
  by (simp add: SetList_def the_strings_map_Str)

lemma scan_users_find:
  "scan_users users loginName d =
     map_option (user_match d) (find (\<lambda>v. EqualFold (Login v) loginName) users)"
  by (induction users)
    (simp_all add: user_match_def flattenPermissions_Some SetList_strings Set_def)

lemma scan_groups_find:
  "scan_groups groups groupName d =
     map_option (group_match d) (find (\<lambda>v. EqualFold (Name v) groupName) groups)"
  by (induction groups)
    (simp_all add: group_match_def flattenPermissions_Some SetList_strings Set_def)

lemma flattenProjectCreatorPermissions_Some:
  "flattenProjectCreatorPermissions (Some ps) = map Str (map Key (filter WithProjectCreator ps))"
  by (simp add: flattenProjectCreatorPermissions_def flatten_creator_loop_append)

lemma scan_templates_find:
  "scan_templates templates templateId templateName d =
     map_option (template_match d)
       (find (\<lambda>v. EqualFold (TemplateID v) templateId \<or> EqualFold (TemplateName v) templateName)
          templates)"
  by (induction templates)
    (simp_all add: template_match_def flattenProjectCreatorPermissions_Some SetList_strings Set_def
      del: map_map)



section \<open>Read, from the reply of the server\<close>

lemma GetOk_Get: "snd (GetOk d key) = (Get d key \<noteq> [])" "fst (GetOk d key) = Get d key"
  by (simp_all add: GetOk_def Get_def)

lemma read_user_reply:
  assumes "Get d ''login_name'' \<noteq> []"
    and "httpClient m log (read_call (read_url d m)) = Response 200 b"
    and "decode_GetUser b = Inr users"
  shows "resourceSonarqubePermissionsRead d m log =
           (case find (\<lambda>v. EqualFold (Login v) (Get d ''login_name'')) users of
              Some v \<Rightarrow> \<lparr>data = user_match d v, calls = log @ [read_call (read_url d m)],
                         out = Success\<rparr>
            | None \<Rightarrow> \<lparr>data = d, calls = log @ [read_call (read_url d m)],
                       out = Failure (not_found d)\<rparr>)"
  using assms
  by (simp add: resourceSonarqubePermissionsRead_def read_url_def GetOk_Get read_user_def
      read_get_call check_reply_def scan_users_find split: option.splits)





lemma SplitN2_none: "CHR ''/'' \<notin> set s \<Longrightarrow> SplitN2 s (CHR ''/'') = [s]"
  by (simp add: SplitN2_def)

lemma binding_helper_call:
  "httpRequestHelper (httpClient m) ''GET'' u 200 ''resourceSonarqubeGitlabBindingRead'' log =
     (log @ [binding_call u], check_reply (httpClient m log (binding_call u)) 200)"
  by (simp add: httpRequestHelper_def binding_call_def Let_def)





section \<open>Not found, and transport failures\<close>






section \<open>The identity set by Create\<close>

lemma Id_match:
  "Id (user_match d u) = Id d" "Id (group_match d g) = Id d" "Id (template_match d t) = Id d"
  "Id (binding_match d p r b) = Id d"
  by (simp_all add: user_match_def group_match_def template_match_def binding_match_def Set_def)

lemma read_keeps_Id: "Id (data (resourceSonarqubePermissionsRead d m log)) = Id d"
  by (simp add: resourceSonarqubePermissionsRead_def read_user_def read_group_def
      read_creator_def read_get_call scan_users_find scan_groups_find scan_templates_find
      Id_match Let_def split: sum.splits option.splits)

lemma binding_read_keeps_Id: "Id (data (resourceSonarqubeGitlabBindingRead d m log)) = Id d"
  by (simp add: resourceSonarqubeGitlabBindingRead_def binding_helper_call
      Id_match [unfolded binding_match_def] split: sum.splits option.splits list.splits)

text \<open>
  Claim C8. When Create of the permissions resource succeeds, the identity of the
  declaration is the identifier drawn by \<open>uuid.NewV4\<close> (an argument of the model:
  that it is fresh is a property of the generator). When Create of the binding resource
  succeeds, the identity is the project key, a slash and the repository of the
  declaration Create was given. The Read that ends Create leaves the identity alone.
\<close>

theorem create_identity:
  "(out (resourceSonarqubePermissionsCreate d m uuid log) = Success \<longrightarrow>
      Id (data (resourceSonarqubePermissionsCreate d m uuid log)) = uuid) \<and>
   (out (resourceSonarqubeGitlabBindingCreate d' m' log') = Success \<longrightarrow>
      Id (data (resourceSonarqubeGitlabBindingCreate d' m' log'))
        = Get d' ''project'' @ ''/'' @ Get d' ''repository'')"
proof (intro conjI impI)
  assume "out (resourceSonarqubePermissionsCreate d m uuid log) = Success"
  then show "Id (data (resourceSonarqubePermissionsCreate d m uuid log)) = uuid"
    by (auto simp: resourceSonarqubePermissionsCreate_def expandPermissions_total
        read_keeps_Id SetId_def split: sum.splits prod.splits option.splits)
next
  assume "out (resourceSonarqubeGitlabBindingCreate d' m' log') = Success"
  then show "Id (data (resourceSonarqubeGitlabBindingCreate d' m' log'))
        = Get d' ''project'' @ ''/'' @ Get d' ''repository''"
    by (auto simp: resourceSonarqubeGitlabBindingCreate_def binding_read_keeps_Id SetId_def
        Let_def split: sum.splits prod.splits option.splits)
qed

text \<open>
  The theorem on the declaration of alice and on a binding, with a server that accepts
  every call.
\<close>

theorem create_identity_witness:
  "out (resourceSonarqubePermissionsCreate alice_decl (conf_of obliging ''Developer'')
          ''9f1c6a52-0d1e-4c58-a1f3-6d2b8f1e7a10'' []) = Success \<and>
   Id (data (resourceSonarqubePermissionsCreate alice_decl (conf_of obliging ''Developer'')
          ''9f1c6a52-0d1e-4c58-a1f3-6d2b8f1e7a10'' [])) = ''9f1c6a52-0d1e-4c58-a1f3-6d2b8f1e7a10'' \<and>
   out (resourceSonarqubeGitlabBindingCreate binding_decl (conf_of obliging ''Developer'') [])
     = Success \<and>
   Id (data (resourceSonarqubeGitlabBindingCreate binding_decl (conf_of obliging ''Developer'') []))
     = ''proj1/42''"
proof -
  have a: "out (resourceSonarqubePermissionsCreate alice_decl (conf_of obliging ''Developer'')
          ''9f1c6a52-0d1e-4c58-a1f3-6d2b8f1e7a10'' []) = Success"
    by code_simp
  have b: "out (resourceSonarqubeGitlabBindingCreate binding_decl (conf_of obliging ''Developer'') [])
     = Success"
    by code_simp
  have g: "Get binding_decl ''project'' = ''proj1''" "Get binding_decl ''repository'' = ''42''"
    by (simp_all add: binding_decl_def no_attrs_def Get_def)
  from a b show ?thesis
    using create_identity [where d = alice_decl and m = "conf_of obliging ''Developer''"
        and uuid = "''9f1c6a52-0d1e-4c58-a1f3-6d2b8f1e7a10''" and log = "[]"
        and d' = binding_decl and m' = "conf_of obliging ''Developer''" and log' = "[]"]
    by (simp add: g)
qed

section \<open>The binding Read on an identity without a slash\<close>

text \<open>
  Claim C9, on the path where Read comes to the comparison. For an identity without a
  slash the split has one element; \<open>idSlice[0]\<close> is the whole identity, sent as the
  project. When the edition check passes, the GET is answered with status 200 and the
  body decodes, Read reads \<open>idSlice[1]\<close> and panics with an index out of range, and
  so does Import, which calls Read. On no path does Read succeed.
\<close>

theorem binding_read_without_slash:
  assumes "CHR ''/'' \<notin> set (Id d)"
  shows "out (resourceSonarqubeGitlabBindingRead d m log) \<noteq> Success \<and>
         (checkGitlabBindingSupport m = None \<and>
          httpClient m log (binding_call (binding_url m (Id d))) = Response 200 b \<and>
          decode_GetBinding b = Inr r \<longrightarrow>
            resourceSonarqubeGitlabBindingRead d m log =
              \<lparr>data = d, calls = log @ [binding_call (binding_url m (Id d))],
               out = Panicked index_panic\<rparr> \<and>
            resourceSonarqubeGitlabBindingImport d m log =
              (\<lparr>data = d, calls = log @ [binding_call (binding_url m (Id d))],
                out = Panicked index_panic\<rparr>, []))"
proof (intro conjI impI; (elim conjE)?)
  show "out (resourceSonarqubeGitlabBindingRead d m log) \<noteq> Success"
    using assms
    by (simp add: resourceSonarqubeGitlabBindingRead_def SplitN2_none binding_helper_call
        split: option.splits sum.splits)
next
  assume h: "checkGitlabBindingSupport m = None"
    "httpClient m log (binding_call (binding_url m (Id d))) = Response 200 b"
    "decode_GetBinding b = Inr r"
  with assms show r: "resourceSonarqubeGitlabBindingRead d m log =
              \<lparr>data = d, calls = log @ [binding_call (binding_url m (Id d))],
               out = Panicked index_panic\<rparr>"
    by (simp add: resourceSonarqubeGitlabBindingRead_def SplitN2_none binding_helper_call
        check_reply_def)
  then show "resourceSonarqubeGitlabBindingImport d m log =
              (\<lparr>data = d, calls = log @ [binding_call (binding_url m (Id d))],
                out = Panicked index_panic\<rparr>, [])"
    by (simp add: resourceSonarqubeGitlabBindingImport_def)
qed

text \<open>
  The theorem on the identity \<open>proj1\<close> and a server that accepts every call.
\<close>

theorem binding_read_without_slash_witness:
  "CHR ''/'' \<notin> set (Id (binding_decl\<lparr>Id := ''proj1''\<rparr>)) \<and>
   resourceSonarqubeGitlabBindingRead (binding_decl\<lparr>Id := ''proj1''\<rparr>)
       (conf_of obliging ''Developer'') [] =
     \<lparr>data = binding_decl\<lparr>Id := ''proj1''\<rparr>,
      calls = [binding_call (base_url\<lparr>Path := ''/api/alm_settings/get_binding'',
                                       RawQuery := ''project=proj1''\<rparr>)],
      out = Panicked ''runtime error: index out of range [1] with length 1''\<rparr> \<and>
   out (fst (resourceSonarqubeGitlabBindingImport (binding_decl\<lparr>Id := ''proj1''\<rparr>)
               (conf_of obliging ''Developer'') [])) =
     Panicked ''runtime error: index out of range [1] with length 1''"
proof -
  let ?d = "binding_decl\<lparr>Id := ''proj1''\<rparr>"
  let ?m = "conf_of obliging ''Developer''"
  let ?binding = "\<lparr>BindingKey = ''gl'', Repository = ''42'', Alm = ''gitlab'', Monorepo = False\<rparr>"
  have h: "CHR ''/'' \<notin> set (Id ?d)" by simp
  have edition: "checkGitlabBindingSupport ?m = None"
    by (simp add: checkGitlabBindingSupport_def conf_of_def ToLower_def lower_byte_def
        is_upper_def shift_lower_def)
  have reply: "httpClient ?m [] (binding_call u) = Response 200 sample_body" for u
    by (simp add: conf_of_def obliging_def binding_call_def)
  have body: "decode_GetBinding sample_body = Inr ?binding"
    by (simp add: sample_body_def)
  have url: "binding_url ?m ''proj1'' = base_url\<lparr>Path := ''/api/alm_settings/get_binding'',
                                           RawQuery := ''project=proj1''\<rparr>"
    by code_simp
  from h show ?thesis
    using binding_read_without_slash [OF h, where m = ?m and log = "[]" and b = sample_body
        and r = ?binding]
    by (simp add: edition reply body url index_panic_def)
qed

text \<open>
  Claim C9 as it is stated, for every identity without a slash, fails where Read
  returns before the comparison: when the server cannot be reached Read returns the
  error of the transport, and on the community edition the error of the edition check.
  In both cases an error is returned and nothing panics.
\<close>

theorem binding_read_error_counterexample:
  "CHR ''/'' \<notin> set (Id (binding_decl\<lparr>Id := ''proj1''\<rparr>)) \<and>
   out (resourceSonarqubeGitlabBindingRead (binding_decl\<lparr>Id := ''proj1''\<rparr>)
          (conf_of unreachable ''Developer'') []) =
     Failure (TransportError (NetworkFailure ''connection refused'')) \<and>
   out (resourceSonarqubeGitlabBindingRead (binding_decl\<lparr>Id := ''proj1''\<rparr>)
          (conf_of obliging ''community'') []) =
     Failure (unsupported_edition (conf_of obliging ''community''))"
  by (simp add: resourceSonarqubeGitlabBindingRead_def checkGitlabBindingSupport_def conf_of_def
      ToLower_def lower_byte_def is_upper_def shift_lower_def SplitN2_def httpRequestHelper_def
      Let_def unreachable_def check_reply_def)

section \<open>The scenario of alice\<close>

lemma alice_fields:
  "Get (SetId uuid alice_decl) ''login_name'' = ''alice''"
  "Get alice_decl ''login_name'' = ''alice''"
  "list_attrs alice_decl ''permissions'' = [''user'', ''scan'']"
  by (simp_all add: alice_decl_def no_attrs_def Get_def SetId_def)

lemma alice_queries:
  "Encode (Values_Add ''permission'' ''user''
     (Values_Del ''permission'' [(''projectKey'', [''proj1'']), (''login'', [''alice''])]))
   = ''login=alice&permission=user&projectKey=proj1''"
  "Encode (Values_Add ''permission'' ''scan''
     (Values_Del ''permission'' [(''projectKey'', [''proj1'']), (''login'', [''alice''])]))
   = ''login=alice&permission=scan&projectKey=proj1''"
  "Encode [(''ps'', [''100'']), (''projectKey'', [''proj1''])] = ''projectKey=proj1&ps=100''"
  by code_simp+

lemma alice_create_target_any:
  "create_target alice_decl u =
     Inr (api_path u ''/api/permissions/add_user'',
          [(''projectKey'', [''proj1'']), (''login'', [''alice''])])"
  by (simp add: create_target_def alice_decl_def no_attrs_def GetOk_def Get_def)

lemma alice_read_url:
  "read_url (SetId uuid alice_decl) m =
     (api_path (sonarQubeURL m) ''/api/permissions/users'')
       \<lparr>RawQuery := ''projectKey=proj1&ps=100''\<rparr>"
  by (simp add: read_url_def user_url_def read_query_def alice_decl_def no_attrs_def GetOk_def
      Get_def SetId_def alice_queries)

lemma alice_calls:
  "permission_call name (api_path u ''/api/permissions/add_user'')
     [(''projectKey'', [''proj1'']), (''login'', [''alice''])] ''user''
   = api_call u ''POST'' ''/api/permissions/add_user''
       ''login=alice&permission=user&projectKey=proj1'' 204 name"
  "permission_call name (api_path u ''/api/permissions/add_user'')
     [(''projectKey'', [''proj1'']), (''login'', [''alice''])] ''scan''
   = api_call u ''POST'' ''/api/permissions/add_user''
       ''login=alice&permission=scan&projectKey=proj1'' 204 name"
  "read_call ((api_path u ''/api/permissions/users'')\<lparr>RawQuery := ''projectKey=proj1&ps=100''\<rparr>)
   = api_call u ''GET'' ''/api/permissions/users'' ''projectKey=proj1&ps=100'' 200
       ''resourceSonarqubePermissionsRead''"
  by (simp_all only: permission_call_def api_call_def api_path_def read_call_def alice_queries)

text \<open>
  Claim C5. For the declaration with \<open>login_name\<close> alice, the permissions user and
  scan and \<open>project_key\<close> proj1, on a server that answers the two POSTs with status
  204 and the GET with status 200 and a list of users: Create issues the POST to
  \<open>/api/permissions/add_user\<close> with the query
  \<open>login=alice&permission=user&projectKey=proj1\<close>, then the one with
  \<open>permission=scan\<close>, both expecting 204; the Read that follows issues one GET to
  \<open>/api/permissions/users\<close> with the query \<open>projectKey=proj1&ps=100\<close>, finds the
  first entry whose login equals alice without regard to case, and sets the permissions
  of the declaration (and its login) from that entry. The paths are under the base
  path of the configured URL.
\<close>

theorem alice_scenario:
  assumes "httpClient m []
             (api_call (sonarQubeURL m) ''POST'' ''/api/permissions/add_user''
                ''login=alice&permission=user&projectKey=proj1'' 204
                ''resourceSonarqubePermissionsCreate'') = Response 204 b1"
    and "httpClient m
           [api_call (sonarQubeURL m) ''POST'' ''/api/permissions/add_user''
              ''login=alice&permission=user&projectKey=proj1'' 204
              ''resourceSonarqubePermissionsCreate'']
           (api_call (sonarQubeURL m) ''POST'' ''/api/permissions/add_user''
              ''login=alice&permission=scan&projectKey=proj1'' 204
              ''resourceSonarqubePermissionsCreate'') = Response 204 b2"
    and "httpClient m
           [api_call (sonarQubeURL m) ''POST'' ''/api/permissions/add_user''
              ''login=alice&permission=user&projectKey=proj1'' 204
              ''resourceSonarqubePermissionsCreate'',
            api_call (sonarQubeURL m) ''POST'' ''/api/permissions/add_user''
              ''login=alice&permission=scan&projectKey=proj1'' 204
              ''resourceSonarqubePermissionsCreate'']
           (api_call (sonarQubeURL m) ''GET'' ''/api/permissions/users''
              ''projectKey=proj1&ps=100'' 200 ''resourceSonarqubePermissionsRead'')
         = Response 200 b3"
    and "decode_GetUser b3 = Inr users"
    and "find (\<lambda>v. EqualFold (Login v) ''alice'') users = Some entry"
  shows "resourceSonarqubePermissionsCreate alice_decl m uuid [] =
           \<lparr>data = (alice_decl\<lparr>Id := uuid\<rparr>)
                     \<lparr>attrs := (attrs alice_decl)(''login_name'' := Login entry),
                      list_attrs := (list_attrs alice_decl)(''permissions'' := UserPermissions entry)\<rparr>,
            calls =
              [api_call (sonarQubeURL m) ''POST'' ''/api/permissions/add_user''
                 ''login=alice&permission=user&projectKey=proj1'' 204
                 ''resourceSonarqubePermissionsCreate'',
               api_call (sonarQubeURL m) ''POST'' ''/api/permissions/add_user''
                 ''login=alice&permission=scan&projectKey=proj1'' 204
                 ''resourceSonarqubePermissionsCreate'',
               api_call (sonarQubeURL m) ''GET'' ''/api/permissions/users''
                 ''projectKey=proj1&ps=100'' 200 ''resourceSonarqubePermissionsRead''],
            out = Success\<rparr>"
proof -
  let ?post1 = "api_call (sonarQubeURL m) ''POST'' ''/api/permissions/add_user''
                  ''login=alice&permission=user&projectKey=proj1'' 204
                  ''resourceSonarqubePermissionsCreate''"
  let ?post2 = "api_call (sonarQubeURL m) ''POST'' ''/api/permissions/add_user''
                  ''login=alice&permission=scan&projectKey=proj1'' 204
                  ''resourceSonarqubePermissionsCreate''"
  let ?get = "api_call (sonarQubeURL m) ''GET'' ''/api/permissions/users''
                ''projectKey=proj1&ps=100'' 200 ''resourceSonarqubePermissionsRead''"
  have exp: "expected ?post1 = 204" "expected ?post2 = 204"
    by (simp_all add: api_call_def)
  have loop: "permission_loop (httpClient m) ''resourceSonarqubePermissionsCreate''
                [''user'', ''scan''] (api_path (sonarQubeURL m) ''/api/permissions/add_user'')
                [(''projectKey'', [''proj1'']), (''login'', [''alice''])] []
              = ([?post1, ?post2], None)"
    using assms(1,2)
    by (simp add: permission_loop_calls alice_calls exp check_reply_def Let_def
        del: permission_loop.simps)
  have get: "httpClient m [?post1, ?post2] (read_call (read_url (SetId uuid alice_decl) m))
               = Response 200 b3"
    using assms(3) by (simp add: alice_read_url alice_calls)
  have "resourceSonarqubePermissionsRead (SetId uuid alice_decl) m [?post1, ?post2] =
          \<lparr>data = user_match (SetId uuid alice_decl) entry,
           calls = [?post1, ?post2, ?get], out = Success\<rparr>"
    using read_user_reply [OF _ get assms(4)] assms(5)
    by (simp add: alice_fields alice_read_url alice_calls)
  moreover have "user_match (SetId uuid alice_decl) entry =
                   (alice_decl\<lparr>Id := uuid\<rparr>)
                     \<lparr>attrs := (attrs alice_decl)(''login_name'' := Login entry),
                      list_attrs := (list_attrs alice_decl)(''permissions'' := UserPermissions entry)\<rparr>"
    by (simp add: user_match_def Set_def SetId_def)
  ultimately show ?thesis
    by (simp add: resourceSonarqubePermissionsCreate_def expandPermissions_total
        alice_create_target_any alice_fields loop del: permission_loop.simps)
qed

text \<open>
  The theorem on a server that lists the user as \<open>Alice\<close>.
\<close>

theorem alice_scenario_witness:
  "resourceSonarqubePermissionsCreate alice_decl (conf_of obliging ''Developer'') ''u-1'' [] =
     \<lparr>data = (alice_decl\<lparr>Id := ''u-1''\<rparr>)
               \<lparr>attrs := (attrs alice_decl)(''login_name'' := ''Alice''),
                list_attrs := (list_attrs alice_decl)(''permissions'' := [''scan'', ''user''])\<rparr>,
      calls =
        [api_call base_url ''POST'' ''/api/permissions/add_user''
           ''login=alice&permission=user&projectKey=proj1'' 204
           ''resourceSonarqubePermissionsCreate'',
         api_call base_url ''POST'' ''/api/permissions/add_user''
           ''login=alice&permission=scan&projectKey=proj1'' 204
           ''resourceSonarqubePermissionsCreate'',
         api_call base_url ''GET'' ''/api/permissions/users''
           ''projectKey=proj1&ps=100'' 200 ''resourceSonarqubePermissionsRead''],
      out = Success\<rparr>"
proof -
  let ?m = "conf_of obliging ''Developer''"
  let ?alice = "\<lparr>Login = ''Alice'', UserPermissions = [''scan'', ''user'']\<rparr>"
  let ?bob = "\<lparr>Login = ''bob'', UserPermissions = [''admin'']\<rparr>"
  have m: "sonarQubeURL ?m = base_url" by (simp add: conf_of_def)
  have r: "httpClient ?m log (api_call u meth e q status name) = Response status sample_body"
    for log u meth e q status name
    by (simp add: conf_of_def obliging_def api_call_def)
  have body: "decode_GetUser sample_body = Inr [?bob, ?alice]"
    by (simp add: sample_body_def)
  have f: "find (\<lambda>v. EqualFold (Login v) ''alice'') [?bob, ?alice] = Some ?alice"
    by code_simp
  show ?thesis
    using alice_scenario [where m = ?m and uuid = "''u-1''", OF r r r body f]
    by (simp add: m)
qed

end
